theory Spec2Isabelle
  imports Main "HOL-Library.Sublist"
begin

section \<open>Python values used by the monitor\<close>

text \<open>
  The embedding follows \<^verbatim>\<open>your_program_is_terminated.py\<close>. Python strings are
  \<^typ>\<open>string\<close>, an \<^verbatim>\<open>Optional[str]\<close> is a \<^typ>\<open>string option\<close>, and a
  raised exception is the \<open>Inl\<close> branch of a sum.
\<close>

definition NL :: string where
  "NL = [CHR 0x0A]"

text \<open>
  Exception classes. The only distinctions the source makes are
  \<^verbatim>\<open>exc_type is KeyboardInterrupt\<close> (in \<^verbatim>\<open>__exit__\<close>) and
  \<^verbatim>\<open>except Exception\<close> (in \<^verbatim>\<open>send\<close>). \<open>ExceptionClass n\<close> is a class named
  \<open>n\<close> that derives from \<^verbatim>\<open>Exception\<close> (ValueError, TypeError, OSError,
  smtplib.SMTPException, ...); \<open>BaseExceptionClass n\<close> is any other class that
  derives from \<^verbatim>\<open>BaseException\<close> only.
\<close>

datatype exc_class =
    KeyboardInterrupt
  | SystemExit
  | BaseExceptionClass string
  | ExceptionClass string

fun class_name :: "exc_class \<Rightarrow> string" where
  "class_name KeyboardInterrupt = ''KeyboardInterrupt''"
| "class_name SystemExit = ''SystemExit''"
| "class_name (BaseExceptionClass n) = n"
| "class_name (ExceptionClass n) = n"

fun derives_from_Exception :: "exc_class \<Rightarrow> bool" where
  "derives_from_Exception (ExceptionClass n) = True"
| "derives_from_Exception c = False"

text \<open>
  An exception in flight: its class, \<^verbatim>\<open>str(value)\<close>, and the text that
  \<^verbatim>\<open>traceback.format_exception\<close> prints before the final line (the header, the
  stack frames and any chained causes), which depends on the call stack only.
\<close>

record exc =
  exc_type :: exc_class
  exc_str :: string
  exc_trace :: string

text \<open>
  \<^verbatim>\<open>"".join(traceback.format_exception(exc_type, exc_value, tb))\<close>: the stack text
  followed by the line \<^verbatim>\<open>Name: message\<close>, or \<^verbatim>\<open>Name\<close> alone when the message is
  empty.
\<close>

definition format_exception :: "exc \<Rightarrow> string" where
  "format_exception e =
     exc_trace e @ class_name (exc_type e)
       @ (if exc_str e = [] then [] else '': '' @ exc_str e) @ NL"

text \<open>Python's \<^verbatim>\<open>sub in s\<close> on strings.\<close>

definition contains :: "string \<Rightarrow> string \<Rightarrow> bool" where
  "contains s sub = sublist sub s"

text \<open>Truthiness of an \<^verbatim>\<open>Optional[str]\<close> and of an \<^verbatim>\<open>Optional[int]\<close>.\<close>

fun truthy :: "string option \<Rightarrow> bool" where
  "truthy None = False"
| "truthy (Some s) = (s \<noteq> [])"

fun truthy_int :: "int option \<Rightarrow> bool" where
  "truthy_int None = False"
| "truthy_int (Some n) = (n \<noteq> 0)"

text \<open>\<^verbatim>\<open>str(n)\<close> for an integer, as the f-strings render the port.\<close>

fun str_nat :: "nat \<Rightarrow> string" where
  "str_nat n =
     (if n < 10 then [char_of (48 + n)]
      else str_nat (n div 10) @ [char_of (48 + n mod 10)])"

definition str_int :: "int \<Rightarrow> string" where
  "str_int i = (if i < 0 then CHR ''-'' # str_nat (nat (- i)) else str_nat (nat i))"

section \<open>Process-wide state\<close>

text \<open>
  The two signals the monitor intercepts, and the dispositions Python can hand back
  from \<^verbatim>\<open>signal.signal\<close> and install again: \<^verbatim>\<open>SIG_DFL\<close>, \<^verbatim>\<open>SIG_IGN\<close>,
  the interpreter's \<^verbatim>\<open>default_int_handler\<close>, some callable of the host program, or
  the monitor's bound method \<^verbatim>\<open>_handle_signal\<close>.
\<close>

datatype signum = SIGINT | SIGTERM

datatype handler =
    SIG_DFL
  | SIG_IGN
  | default_int_handler
  | Callable nat
  | MonitorHandler

fun Signals_name :: "signum \<Rightarrow> string" where
  "Signals_name SIGINT = ''SIGINT''"
| "Signals_name SIGTERM = ''SIGTERM''"

datatype proxy_type = PROXY_TYPE_HTTP | PROXY_TYPE_SOCKS5

datatype socket_factory = StdSocket | SocksSocket

datatype conn_mode = SMTP_SSL | SMTP_STARTTLS

text \<open>
  What the program does to the outside, in order: lines printed, dispositions
  installed, calls of \<^verbatim>\<open>SimpleEmailServer.send\<close> (recipient, subject, body), the
  PySocks calls, and the SMTP session that \<^verbatim>\<open>send\<close> opens.
\<close>

datatype event =
    Printed string
  | SignalSet signum handler
  | SendCalled "string option" string string
  | SetDefaultProxy proxy_type "string option" nat
  | SocketReplaced
  | SmtpSession conn_mode string int

record process =
  handlers :: "signum \<Rightarrow> handler"
  socket_socket :: socket_factory
  defaultproxy :: "(proxy_type \<times> string option \<times> nat) option"
  log :: "event list"

definition print :: "string \<Rightarrow> process \<Rightarrow> process" where
  "print s w = w\<lparr>log := log w @ [Printed s]\<rparr>"

definition emit :: "event \<Rightarrow> process \<Rightarrow> process" where
  "emit ev w = w\<lparr>log := log w @ [ev]\<rparr>"

text \<open>
  \<^verbatim>\<open>signal.signal(sig, h)\<close>: installs \<open>h\<close> and returns the previous disposition.
  Passing \<^verbatim>\<open>None\<close> (the value \<^verbatim>\<open>__init__\<close> stores before acquisition) raises
  TypeError and installs nothing.
\<close>

definition TypeError_handler :: exc where
  "TypeError_handler =
     \<lparr>exc_type = ExceptionClass ''TypeError'',
      exc_str = ''signal handler must be signal.SIG_IGN, signal.SIG_DFL, or a callable object'',
      exc_trace = []\<rparr>"

definition install :: "signum \<Rightarrow> handler \<Rightarrow> process \<Rightarrow> handler \<times> process" where
  "install sg h w =
     (handlers w sg, w\<lparr>handlers := (handlers w)(sg := h), log := log w @ [SignalSet sg h]\<rparr>)"

fun signal_signal :: "signum \<Rightarrow> handler option \<Rightarrow> process \<Rightarrow> (exc + handler) \<times> process" where
  "signal_signal sg None w = (Inl TypeError_handler, w)"
| "signal_signal sg (Some h) w = (case install sg h w of (old, w') \<Rightarrow> (Inr old, w'))"

section \<open>SimpleEmailServer\<close>

record proxy_info =
  proxy_kind :: string
  proxy_host :: "string option"
  proxy_port :: nat

record SimpleEmailServer =
  srv_smtp_host :: string
  srv_smtp_port :: int
  srv_sender_email :: "string option"
  srv_sender_password :: "string option"
  srv_http_proxy :: "string option"
  srv_https_proxy :: "string option"
  srv_proxy_info :: "proxy_info option"

text \<open>
  The result of \<^verbatim>\<open>urllib.parse.urlparse\<close> as far as \<^verbatim>\<open>_parse_proxy\<close> reads it.
  Reading \<^verbatim>\<open>.port\<close> raises ValueError on a malformed port.
\<close>

record parsed_url =
  url_scheme :: string
  url_hostname :: "string option"
  url_port :: "exc + nat option"

definition parse_proxy :: "(string \<Rightarrow> parsed_url) \<Rightarrow> string \<Rightarrow> exc + proxy_info" where
  "parse_proxy urlparse proxy_url =
     (let parsed = urlparse proxy_url in
      case url_port parsed of
        Inl e \<Rightarrow> Inl e
      | Inr p \<Rightarrow>
          Inr \<lparr>proxy_kind =
                 (if url_scheme parsed \<in> set [''http'', ''https''] then ''http'' else ''socks5''),
               proxy_host = url_hostname parsed,
               proxy_port = (case p of None \<Rightarrow> 8080 | Some n \<Rightarrow> if n = 0 then 8080 else n)\<rparr>)"

definition server_init ::
  "(string \<Rightarrow> parsed_url) \<Rightarrow> string \<Rightarrow> int \<Rightarrow> string option \<Rightarrow> string option
     \<Rightarrow> string option \<Rightarrow> string option \<Rightarrow> exc + SimpleEmailServer" where
  "server_init urlparse host port sender password http https =
     (let self = \<lparr>srv_smtp_host = host, srv_smtp_port = port, srv_sender_email = sender,
                   srv_sender_password = password, srv_http_proxy = http,
                   srv_https_proxy = https, srv_proxy_info = None\<rparr>
      in if truthy http then
           (case parse_proxy urlparse (case http of Some u \<Rightarrow> u | None \<Rightarrow> []) of
              Inl e \<Rightarrow> Inl e
            | Inr pi \<Rightarrow> Inr (self\<lparr>srv_proxy_info := Some pi\<rparr>))
         else if truthy https then
           (case parse_proxy urlparse (case https of Some u \<Rightarrow> u | None \<Rightarrow> []) of
              Inl e \<Rightarrow> Inl e
            | Inr pi \<Rightarrow> Inr (self\<lparr>srv_proxy_info := Some pi\<rparr>))
         else Inr self)"

text \<open>
  \<^verbatim>\<open>send\<close>. The SMTP library is outside the repository: \<open>transport\<close> says what the
  session (connect, starttls, login, sendmail, quit) does, \<open>None\<close> when every step
  succeeds and \<open>Some e\<close> when one of them raises \<open>e\<close>. The \<^verbatim>\<open>except Exception\<close>
  clause catches \<open>e\<close> when its class derives from \<^verbatim>\<open>Exception\<close>; anything else
  leaves \<^verbatim>\<open>send\<close>.
\<close>

definition set_proxy :: "proxy_info \<Rightarrow> process \<Rightarrow> process" where
  "set_proxy pi w =
     (let ty = (if proxy_kind pi = ''http'' then PROXY_TYPE_HTTP else PROXY_TYPE_SOCKS5);
          w1 = emit (SetDefaultProxy ty (proxy_host pi) (proxy_port pi))
                 (w\<lparr>defaultproxy := Some (ty, proxy_host pi, proxy_port pi)\<rparr>)
      in emit SocketReplaced (w1\<lparr>socket_socket := SocksSocket\<rparr>))"

definition send ::
  "SimpleEmailServer \<Rightarrow> string option \<Rightarrow> string \<Rightarrow> string \<Rightarrow> exc option \<Rightarrow> process
     \<Rightarrow> (exc + bool) \<times> process" where
  "send self recipient subject body transport w =
     (let w0 = emit (SendCalled recipient subject body) w;
          w1 = print (''[TERMINATION_MONITOR] Connecting to SMTP server '' @ srv_smtp_host self
                        @ '':'' @ str_int (srv_smtp_port self) @ ''...'') w0;
          w2 = (case srv_proxy_info self of None \<Rightarrow> w1 | Some pi \<Rightarrow> set_proxy pi w1);
          w3 = emit (SmtpSession (if srv_smtp_port self = 465 then SMTP_SSL else SMTP_STARTTLS)
                       (srv_smtp_host self) (srv_smtp_port self)) w2
      in case transport of
           None \<Rightarrow>
             (Inr True, print ''[TERMINATION_MONITOR] Email notification sent successfully.'' w3)
         | Some e \<Rightarrow>
             if derives_from_Exception (exc_type e) then
               (Inr False,
                print (''[TERMINATION_MONITOR] Failed to send email. Error: '' @ exc_str e) w3)
             else (Inl e, w3))"

section \<open>termination_monitor\<close>

text \<open>
  What \<^verbatim>\<open>__init__\<close> reads from outside the program: the environment
  (\<^verbatim>\<open>os.getenv\<close>), the built-in \<^verbatim>\<open>int\<close> on a string (the integer, or the ValueError
  it raises), and \<^verbatim>\<open>urlparse\<close>.
\<close>

record platform =
  environ :: "string \<rightharpoonup> string"
  int_of_str :: "string \<Rightarrow> exc + int"
  urlparse :: "string \<Rightarrow> parsed_url"

definition getenv :: "platform \<Rightarrow> string \<Rightarrow> string option" where
  "getenv pf k = environ pf k"

definition getenv_default :: "platform \<Rightarrow> string \<Rightarrow> string \<Rightarrow> string" where
  "getenv_default pf k d = (case environ pf k of None \<Rightarrow> d | Some v \<Rightarrow> v)"

text \<open>\<^verbatim>\<open>a or b\<close> on optional strings: \<open>a\<close> when it is truthy, else \<open>b\<close>.\<close>

definition py_or :: "string option \<Rightarrow> string option \<Rightarrow> string option" where
  "py_or a b = (if truthy a then a else b)"

record monitor =
  recipient_email :: "string option"
  smtp_host :: string
  smtp_port :: int
  sender_email :: "string option"
  sender_password :: "string option"
  http_proxy :: "string option"
  https_proxy :: "string option"
  mailer :: "SimpleEmailServer option"
  original_sigint :: "handler option"
  original_sigterm :: "handler option"

definition config_warning :: string where
  "config_warning =
     ''[TERMINATION_MONITOR] Warning: Email configuration incomplete. Email alerts will be disabled.''"

text \<open>\<^verbatim>\<open>int(smtp_port or os.getenv('TERMINATION_MONITOR_SMTP_PORT', 587))\<close>\<close>

definition resolve_port :: "platform \<Rightarrow> int option \<Rightarrow> exc + int" where
  "resolve_port pf smtp_port_arg =
     (if truthy_int smtp_port_arg then
        (case smtp_port_arg of Some n \<Rightarrow> Inr n | None \<Rightarrow> Inr 587)
      else
        (case environ pf ''TERMINATION_MONITOR_SMTP_PORT'' of
           None \<Rightarrow> Inr 587
         | Some s \<Rightarrow> int_of_str pf s))"

text \<open>\<^verbatim>\<open>smtp_host or os.getenv('TERMINATION_MONITOR_SMTP_HOST', 'smtp.gmail.com')\<close>\<close>

definition resolve_host :: "platform \<Rightarrow> string option \<Rightarrow> string" where
  "resolve_host pf smtp_host_arg =
     (case smtp_host_arg of
        Some h \<Rightarrow>
          if h \<noteq> [] then h
          else getenv_default pf ''TERMINATION_MONITOR_SMTP_HOST'' ''smtp.gmail.com''
      | None \<Rightarrow> getenv_default pf ''TERMINATION_MONITOR_SMTP_HOST'' ''smtp.gmail.com'')"

text \<open>
  \<^verbatim>\<open>termination_monitor.__init__\<close>. It has five parameters; the two proxy URLs are
  read from the environment only.
\<close>

definition monitor_init ::
  "platform \<Rightarrow> string option \<Rightarrow> string option \<Rightarrow> int option \<Rightarrow> string option
     \<Rightarrow> string option \<Rightarrow> process \<Rightarrow> (exc + monitor) \<times> process" where
  "monitor_init pf recipient_arg smtp_host_arg smtp_port_arg sender_arg password_arg w =
     (let recipient = py_or recipient_arg (getenv pf ''TERMINATION_MONITOR_RECIPIENT_EMAIL'');
          host = resolve_host pf smtp_host_arg
      in case resolve_port pf smtp_port_arg of
           Inl e \<Rightarrow> (Inl e, w)
         | Inr port \<Rightarrow>
             (let sender = py_or sender_arg (getenv pf ''TERMINATION_MONITOR_SENDER_EMAIL'');
                  password =
                    py_or password_arg (getenv pf ''TERMINATION_MONITOR_SENDER_PASSWORD'');
                  http = getenv pf ''TERMINATION_MONITOR_HTTP_PROXY'';
                  https = getenv pf ''TERMINATION_MONITOR_HTTPS_PROXY'';
                  self = \<lparr>recipient_email = recipient, smtp_host = host, smtp_port = port,
                          sender_email = sender, sender_password = password,
                          http_proxy = http, https_proxy = https, mailer = None,
                          original_sigint = None, original_sigterm = None\<rparr>
              in if truthy sender \<and> truthy password \<and> truthy recipient then
                   (case server_init (urlparse pf) host port sender password http https of
                      Inl e \<Rightarrow> (Inl e, w)
                    | Inr srv \<Rightarrow> (Inr (self\<lparr>mailer := Some srv\<rparr>), w))
                 else (Inr self, print config_warning w)))"

text \<open>
  \<^verbatim>\<open>_handle_signal\<close>: prints the signal's name and raises SystemExit through
  \<^verbatim>\<open>sys.exit\<close>. \<open>stack\<close> is the traceback text of the interrupted frame.
\<close>

definition handle_signal :: "signum \<Rightarrow> string \<Rightarrow> process \<Rightarrow> exc \<times> process" where
  "handle_signal sg stack w =
     (let sig_name = Signals_name sg
      in (\<lparr>exc_type = SystemExit,
           exc_str = ''Process terminated by signal '' @ sig_name,
           exc_trace = stack\<rparr>,
          print (NL @ ''[TERMINATION_MONITOR] Signal received: '' @ sig_name) w))"

definition alert_subject :: "string \<Rightarrow> string" where
  "alert_subject status = ''[ALERT] Your Program is Terminated: '' @ status"

definition alert_body :: "string \<Rightarrow> string \<Rightarrow> string \<Rightarrow> string \<Rightarrow> string" where
  "alert_body hostname status time details =
     ''Your program monitoring report:'' @ NL @ NL
     @ ''Host Machine: '' @ hostname @ NL
     @ ''Status: '' @ status @ NL
     @ ''Time: '' @ time @ NL
     @ ''----------------------------------------'' @ NL
     @ ''Error Logs / Traceback:'' @ NL
     @ details @ NL
     @ ''----------------------------------------'' @ NL
     @ ''This is an automated message from Your_Program_is_Terminated library.''"

text \<open>
  \<^verbatim>\<open>_trigger_alert\<close>. \<open>hostname\<close> is \<^verbatim>\<open>socket.gethostname()\<close>, \<open>time\<close> is the
  rendered \<^verbatim>\<open>datetime\<close>, \<open>transport\<close> is what the SMTP session of this call does.
\<close>

definition trigger_alert ::
  "string \<Rightarrow> exc option \<Rightarrow> monitor \<Rightarrow> string \<Rightarrow> string \<Rightarrow> string \<Rightarrow> process
     \<Rightarrow> (exc + unit) \<times> process" where
  "trigger_alert hostname transport self status details time w =
     (case mailer self of
        None \<Rightarrow>
          (Inr (), print ''[TERMINATION_MONITOR] No email configuration. Skipping alert.'' w)
      | Some srv \<Rightarrow>
          (let w1 = print ''[TERMINATION_MONITOR] Preparing termination report...'' w
           in case send srv (recipient_email self) (alert_subject status)
                     (alert_body hostname status time details) transport w1 of
                (Inl e, w2) \<Rightarrow> (Inl e, w2)
              | (Inr ok, w2) \<Rightarrow> (Inr (), w2)))"

definition start_subject :: string where
  "start_subject = ''[INFO] Monitoring Activated: Your Program Started''"

definition start_body :: "string \<Rightarrow> string \<Rightarrow> string" where
  "start_body hostname start_time =
     ''Program monitoring has started successfully.'' @ NL @ NL
     @ ''Host Machine: '' @ hostname @ NL
     @ ''Start Time: '' @ start_time @ NL
     @ ''----------------------------------------'' @ NL
     @ ''You will receive another email when the program terminates (success or failure).''
     @ NL"

text \<open>\<^verbatim>\<open>__enter__\<close>: installs the handler for SIGTERM, then for SIGINT, keeping what
  was installed before, and sends the start-up e-mail when there is a mailer.\<close>

definition monitor_enter ::
  "string \<Rightarrow> string \<Rightarrow> exc option \<Rightarrow> monitor \<Rightarrow> process \<Rightarrow> (exc + monitor) \<times> process" where
  "monitor_enter hostname start_time transport self w =
     (let w1 = print (''[TERMINATION_MONITOR] Monitoring started at '' @ start_time @ ''...'') w;
          (old_term, w2) = install SIGTERM MonitorHandler w1;
          (old_int, w3) = install SIGINT MonitorHandler w2;
          self' = self\<lparr>original_sigterm := Some old_term, original_sigint := Some old_int\<rparr>
      in case mailer self' of
           None \<Rightarrow> (Inr self', w3)
         | Some srv \<Rightarrow>
             (let w4 = print ''[TERMINATION_MONITOR] Sending start-up notification...'' w3
              in case send srv (recipient_email self') start_subject
                        (start_body hostname start_time) transport w4 of
                   (Inl e, w5) \<Rightarrow> (Inl e, w5)
                 | (Inr ok, w5) \<Rightarrow> (Inr self', w5)))"

text \<open>
  The status and the details that \<^verbatim>\<open>__exit__\<close> computes from \<^verbatim>\<open>exc_type\<close>,
  \<^verbatim>\<open>exc_value\<close> and \<^verbatim>\<open>tb\<close> (\<open>None\<close> when the block completed).
\<close>

definition exit_status :: "exc option \<Rightarrow> string \<times> string" where
  "exit_status ex =
     (case ex of
        None \<Rightarrow> (''Success'', ''None'')
      | Some e \<Rightarrow>
          if exc_type e = KeyboardInterrupt then
            (''Interrupted by User (Ctrl+C)'', ''User manually stopped the program.'')
          else (''Crashed / Terminated'', format_exception e))"

text \<open>
  \<^verbatim>\<open>__exit__\<close>: restores SIGTERM, then SIGINT, prints the traceback when there is
  an exception, triggers the alert and returns False. \<open>Inl\<close> is an exception raised
  by \<^verbatim>\<open>__exit__\<close> itself.
\<close>

definition monitor_exit ::
  "string \<Rightarrow> string \<Rightarrow> exc option \<Rightarrow> monitor \<Rightarrow> exc option \<Rightarrow> process
     \<Rightarrow> (exc + bool) \<times> process" where
  "monitor_exit hostname end_time transport self ex w =
     (case signal_signal SIGTERM (original_sigterm self) w of
        (Inl e, w1) \<Rightarrow> (Inl e, w1)
      | (Inr old1, w1) \<Rightarrow>
          (case signal_signal SIGINT (original_sigint self) w1 of
             (Inl e, w2) \<Rightarrow> (Inl e, w2)
           | (Inr old2, w2) \<Rightarrow>
               (let w3 = (case ex of
                            None \<Rightarrow> w2
                          | Some e \<Rightarrow>
                              print (NL @ ''[TERMINATION_MONITOR] Exception detected:'' @ NL
                                       @ format_exception e) w2);
                    (status, error_details) = exit_status ex
                in case trigger_alert hostname transport self status error_details end_time w3 of
                     (Inl e, w4) \<Rightarrow> (Inl e, w4)
                   | (Inr u, w4) \<Rightarrow> (Inr False, w4))))"

section \<open>The with statement around a guarded block\<close>

text \<open>
  How the guarded block ends: it completes, it raises, or one of the two signals
  arrives while it runs (with the traceback text of the interrupted frame).
\<close>

datatype block = Completes | Raises exc | Signalled signum string

text \<open>
  While the block runs both signals are bound to \<^verbatim>\<open>_handle_signal\<close>
  (lemma \<open>enter_installs\<close> below), so an arriving signal runs that handler.
\<close>

fun run_block :: "block \<Rightarrow> process \<Rightarrow> exc option \<times> process" where
  "run_block Completes w = (None, w)"
| "run_block (Raises e) w = (Some e, w)"
| "run_block (Signalled sg stack) w = (case handle_signal sg stack w of (e, w') \<Rightarrow> (Some e, w'))"

record surroundings =
  hostname :: string
  start_time :: string
  end_time :: string
  start_transport :: "exc option"
  end_transport :: "exc option"

text \<open>
  \<^verbatim>\<open>with monitor: block\<close>. The result is \<open>None\<close> when the statement completes
  and \<open>Some e\<close> when \<open>e\<close> propagates to the caller: an exception of
  \<^verbatim>\<open>__enter__\<close> (the block does not run), an exception of \<^verbatim>\<open>__exit__\<close>, or
  the block's own exception when \<^verbatim>\<open>__exit__\<close> returns a false value.
\<close>

definition with_monitor ::
  "surroundings \<Rightarrow> monitor \<Rightarrow> block \<Rightarrow> process \<Rightarrow> exc option \<times> process" where
  "with_monitor sr self blk w =
     (case monitor_enter (hostname sr) (start_time sr) (start_transport sr) self w of
        (Inl e, w1) \<Rightarrow> (Some e, w1)
      | (Inr self', w1) \<Rightarrow>
          (case run_block blk w1 of
             (ex, w2) \<Rightarrow>
               (case monitor_exit (hostname sr) (end_time sr) (end_transport sr) self' ex w2 of
                  (Inl e, w3) \<Rightarrow> (Some e, w3)
                | (Inr suppress, w3) \<Rightarrow> (if suppress then None else ex, w3))))"

section \<open>Observations on a run\<close>

text \<open>The calls of \<^verbatim>\<open>send\<close> in a log, in order.\<close>

fun sends :: "event list \<Rightarrow> (string option \<times> string \<times> string) list" where
  "sends [] = []"
| "sends (SendCalled r s b # evs) = (r, s, b) # sends evs"
| "sends (ev # evs) = sends evs"


definition send_outcome :: "exc option \<Rightarrow> exc + bool" where
  "send_outcome tr =
     (case tr of None \<Rightarrow> Inr True
      | Some e \<Rightarrow> if derives_from_Exception (exc_type e) then Inr False else Inl e)"

text \<open>A process and two monitors to run the definitions on.\<close>

definition demo_process :: process where
  "demo_process =
     \<lparr>handlers = (\<lambda>sg. case sg of SIGINT \<Rightarrow> default_int_handler | SIGTERM \<Rightarrow> SIG_DFL),
      socket_socket = StdSocket, defaultproxy = None, log = []\<rparr>"

definition demo_server :: SimpleEmailServer where
  "demo_server =
     \<lparr>srv_smtp_host = ''smtp.gmail.com'', srv_smtp_port = 587,
      srv_sender_email = Some ''bot@example.org'', srv_sender_password = Some ''secret'',
      srv_http_proxy = None, srv_https_proxy = None, srv_proxy_info = None\<rparr>"

definition demo_monitor :: monitor where
  "demo_monitor =
     \<lparr>recipient_email = Some ''ops@example.org'', smtp_host = ''smtp.gmail.com'',
      smtp_port = 587, sender_email = Some ''bot@example.org'',
      sender_password = Some ''secret'', http_proxy = None, https_proxy = None,
      mailer = Some demo_server, original_sigint = None, original_sigterm = None\<rparr>"

definition degraded_monitor :: monitor where
  "degraded_monitor = demo_monitor\<lparr>recipient_email := None, mailer := None\<rparr>"

definition demo_armed :: "monitor \<Rightarrow> monitor" where
  "demo_armed m = m\<lparr>original_sigterm := Some SIG_DFL, original_sigint := Some default_int_handler\<rparr>"

text \<open>Surroundings and exceptions to run the definitions on.\<close>

definition demo_surroundings :: "exc option \<Rightarrow> surroundings" where
  "demo_surroundings tr =
     \<lparr>hostname = ''box'', start_time = ''t0'', end_time = ''t1'',
      start_transport = None, end_transport = tr\<rparr>"

definition ctrl_c :: exc where
  "ctrl_c = \<lparr>exc_type = KeyboardInterrupt, exc_str = [], exc_trace = []\<rparr>"



definition demo_proxy_server :: SimpleEmailServer where
  "demo_proxy_server =
     demo_server\<lparr>srv_http_proxy := Some ''http://relay.example.org:3128'',
                 srv_proxy_info :=
                   Some \<lparr>proxy_kind = ''http'', proxy_host = Some ''relay.example.org'',
                         proxy_port = 3128\<rparr>\<rparr>"


text \<open>The PySocks proxy type that \<^verbatim>\<open>send\<close> selects for a parsed proxy.\<close>

definition proxy_kind_of :: "proxy_info \<Rightarrow> proxy_type" where
  "proxy_kind_of pi = (if proxy_kind pi = ''http'' then PROXY_TYPE_HTTP else PROXY_TYPE_SOCKS5)"

text \<open>Two platforms to construct monitors on.\<close>

definition demo_platform :: platform where
  "demo_platform =
     \<lparr>environ = Map.empty,
      int_of_str =
        (\<lambda>s. if s = ''2525'' then Inr 2525
             else Inl \<lparr>exc_type = ExceptionClass ''ValueError'',
                       exc_str = ''invalid literal for int() with base 10'',
                       exc_trace = []\<rparr>),
      urlparse =
        (\<lambda>u. \<lparr>url_scheme = ''http'', url_hostname = Some ''relay.example.org'',
               url_port = Inr (Some 3128)\<rparr>)\<rparr>"

definition port_env_platform :: platform where
  "port_env_platform =
     demo_platform\<lparr>environ := [''TERMINATION_MONITOR_SMTP_PORT'' \<mapsto> ''2525'']\<rparr>"

section \<open>Basic facts about the operations\<close>

lemma sends_append: "sends (xs @ ys) = sends xs @ sends ys"
  by (induction xs rule: sends.induct) simp_all

lemma log_print: "log (print s w) = log w @ [Printed s]"
  by (simp add: print_def)

lemma log_emit: "log (emit ev w) = log w @ [ev]"
  by (simp add: emit_def)

lemma handlers_print: "handlers (print s w) = handlers w"
  by (simp add: print_def)

lemma handlers_emit: "handlers (emit ev w) = handlers w"
  by (simp add: emit_def)

lemma handlers_set_proxy: "handlers (set_proxy pi w) = handlers w"
  by (simp add: set_proxy_def Let_def handlers_emit)

lemma sends_set_proxy: "sends (log (set_proxy pi w)) = sends (log w)"
  by (simp add: set_proxy_def Let_def log_emit sends_append)


lemma sends_send: "sends (log (snd (send srv r s b tr w))) = sends (log w) @ [(r, s, b)]"
  by (simp add: send_def Let_def log_print log_emit sends_set_proxy sends_append
      split: option.splits)


lemma enter_fst:
  "fst (monitor_enter h st tr m w) =
     (case mailer m of
        None \<Rightarrow> Inr (m\<lparr>original_sigterm := Some (handlers w SIGTERM),
                       original_sigint := Some (handlers w SIGINT)\<rparr>)
      | Some srv \<Rightarrow>
          (case tr of
             None \<Rightarrow> Inr (m\<lparr>original_sigterm := Some (handlers w SIGTERM),
                            original_sigint := Some (handlers w SIGINT)\<rparr>)
           | Some e \<Rightarrow>
               if derives_from_Exception (exc_type e)
               then Inr (m\<lparr>original_sigterm := Some (handlers w SIGTERM),
                            original_sigint := Some (handlers w SIGINT)\<rparr>)
               else Inl e))"
  by (simp add: monitor_enter_def install_def Let_def handlers_print send_def
      split: option.splits prod.splits sum.splits)

lemma enter_armed:
  assumes "fst (monitor_enter h st tr m w) = Inr m1"
  shows "m1 = m\<lparr>original_sigterm := Some (handlers w SIGTERM),
                 original_sigint := Some (handlers w SIGINT)\<rparr>"
  using assms by (simp add: enter_fst split: option.splits if_splits)

lemma enter_installs:
  "handlers (snd (monitor_enter h st tr m w)) sg = MonitorHandler"
  by (cases sg)
     (simp_all add: monitor_enter_def install_def Let_def handlers_print send_def
        handlers_emit handlers_set_proxy split: option.splits prod.splits sum.splits)

lemma trigger_alert_fst:
  "fst (trigger_alert h tr m status details t w) =
     (case mailer m of None \<Rightarrow> Inr ()
      | Some srv \<Rightarrow> (case send_outcome tr of Inl e \<Rightarrow> Inl e | Inr ok \<Rightarrow> Inr ()))"
  by (simp add: trigger_alert_def Let_def send_def send_outcome_def
      split: option.splits prod.splits sum.splits)

lemma trigger_alert_snd:
  "mailer m = Some srv \<Longrightarrow>
   snd (trigger_alert h tr m status details t w) =
     snd (send srv (recipient_email m) (alert_subject status) (alert_body h status t details) tr
            (print ''[TERMINATION_MONITOR] Preparing termination report...'' w))"
  by (simp add: trigger_alert_def Let_def split: prod.splits sum.splits)

lemma trigger_alert_sends:
  "sends (log (snd (trigger_alert h tr m status details t w))) =
     sends (log w) @
       (case mailer m of None \<Rightarrow> []
        | Some srv \<Rightarrow> [(recipient_email m, alert_subject status, alert_body h status t details)])"
proof (cases "mailer m")
  case None
  then show ?thesis by (simp add: trigger_alert_def log_print sends_append)
next
  case (Some srv)
  then show ?thesis
    by (simp add: trigger_alert_snd sends_send log_print sends_append)
qed



lemma exit_snd:
  assumes "original_sigterm m = Some ht" and "original_sigint m = Some hi"
  shows "snd (monitor_exit h t tr m ex w) =
     snd (trigger_alert h tr m (fst (exit_status ex)) (snd (exit_status ex)) t
       ((case ex of None \<Rightarrow> (\<lambda>w. w)
         | Some e \<Rightarrow> print (NL @ ''[TERMINATION_MONITOR] Exception detected:'' @ NL
                                       @ format_exception e))
          (snd (install SIGINT hi (snd (install SIGTERM ht w))))))"
  using assms
  by (simp add: monitor_exit_def install_def Let_def case_prod_unfold
      split: sum.splits option.splits)

lemma exit_fst:
  assumes "original_sigterm m = Some ht" and "original_sigint m = Some hi"
  shows "fst (monitor_exit h t tr m ex w) =
     (case mailer m of None \<Rightarrow> Inr False
      | Some srv \<Rightarrow> (case send_outcome tr of Inl e \<Rightarrow> Inl e | Inr ok \<Rightarrow> Inr False))"
proof -
  have "fst (monitor_exit h t tr m ex w) =
     (case fst (trigger_alert h tr m (fst (exit_status ex)) (snd (exit_status ex)) t
       ((case ex of None \<Rightarrow> (\<lambda>w. w)
         | Some e \<Rightarrow> print (NL @ ''[TERMINATION_MONITOR] Exception detected:'' @ NL
                                       @ format_exception e))
          (snd (install SIGINT hi (snd (install SIGTERM ht w)))))) of
        Inl e \<Rightarrow> Inl e | Inr u \<Rightarrow> Inr False)"
    using assms
    by (simp add: monitor_exit_def install_def Let_def case_prod_unfold
        split: sum.splits option.splits)
  then show ?thesis
    by (simp add: trigger_alert_fst split: option.splits sum.splits)
qed


lemma exit_sends:
  assumes "original_sigterm m = Some ht" and "original_sigint m = Some hi"
  shows "sends (log (snd (monitor_exit h t tr m ex w))) =
     sends (log w) @
       (case mailer m of None \<Rightarrow> []
        | Some srv \<Rightarrow>
            [(recipient_email m, alert_subject (fst (exit_status ex)),
              alert_body h (fst (exit_status ex)) t (snd (exit_status ex)))])"
  by (simp add: exit_snd [OF assms] trigger_alert_sends install_def log_print sends_append
      split: option.splits)


lemma run_block_fst:
  "fst (run_block blk w) =
     (case blk of
        Completes \<Rightarrow> None
      | Raises e \<Rightarrow> Some e
      | Signalled sg stack \<Rightarrow>
          Some \<lparr>exc_type = SystemExit,
                exc_str = ''Process terminated by signal '' @ Signals_name sg,
                exc_trace = stack\<rparr>)"
  by (cases blk) (simp_all add: handle_signal_def Let_def)

lemma with_monitor_fst:
  "fst (with_monitor sr m blk w) =
     (case fst (monitor_enter (hostname sr) (start_time sr) (start_transport sr) m w) of
        Inl e \<Rightarrow> Some e
      | Inr m1 \<Rightarrow>
          (case fst (monitor_exit (hostname sr) (end_time sr) (end_transport sr) m1
                      (fst (run_block blk
                         (snd (monitor_enter (hostname sr) (start_time sr) (start_transport sr) m w))))
                      (snd (run_block blk
                         (snd (monitor_enter (hostname sr) (start_time sr) (start_transport sr) m w))))) of
             Inl e \<Rightarrow> Some e
           | Inr suppress \<Rightarrow>
               if suppress then None
               else fst (run_block blk
                      (snd (monitor_enter (hostname sr) (start_time sr) (start_transport sr) m w)))))"
  by (simp add: with_monitor_def case_prod_unfold split: sum.splits)

lemma with_monitor_outcome:
  "fst (with_monitor sr m blk w) =
     (case mailer m of
        None \<Rightarrow> fst (run_block blk w)
      | Some srv \<Rightarrow>
          (case send_outcome (start_transport sr) of
             Inl e \<Rightarrow> Some e
           | Inr ok \<Rightarrow>
               (case send_outcome (end_transport sr) of
                  Inl e \<Rightarrow> Some e
                | Inr ok' \<Rightarrow> fst (run_block blk w))))"
proof (cases "fst (monitor_enter (hostname sr) (start_time sr) (start_transport sr) m w)")
  case (Inl e)
  then show ?thesis
    by (simp add: with_monitor_fst)
       (auto simp add: enter_fst send_outcome_def split: option.splits if_splits)
next
  case (Inr m1)
  have m1: "m1 = m\<lparr>original_sigterm := Some (handlers w SIGTERM),
                     original_sigint := Some (handlers w SIGINT)\<rparr>"
    using Inr by (rule enter_armed)
  have t: "original_sigterm m1 = Some (handlers w SIGTERM)"
    and i: "original_sigint m1 = Some (handlers w SIGINT)"
    and ml: "mailer m1 = mailer m"
    by (simp_all add: m1)
  have st: "mailer m = None \<or> (\<exists>ok. send_outcome (start_transport sr) = Inr ok)"
    using Inr by (auto simp add: enter_fst send_outcome_def split: option.splits if_splits)
  show ?thesis
    using st
    by (auto simp add: with_monitor_fst Inr exit_fst [OF t i] ml run_block_fst
        split: option.splits sum.splits)
qed


lemma contains_append_left: "contains s x \<Longrightarrow> contains (p @ s) x"
  unfolding contains_def sublist_def by (metis append.assoc)

lemma contains_append_right: "contains s x \<Longrightarrow> contains (s @ q) x"
  unfolding contains_def sublist_def by (metis append.assoc)



lemma alert_body_contains_details:
  "contains details x \<Longrightarrow> contains (alert_body h status t details) x"
  unfolding alert_body_def
  by (intro contains_append_left contains_append_right)



lemma enter_caught:
  assumes "fst (monitor_enter h st tr m w) = Inr m1" and "mailer m = Some srv"
  shows "\<exists>ok. send_outcome tr = Inr ok"
  using assms
  by (auto simp add: enter_fst send_outcome_def split: option.splits if_splits)




lemma socket_print: "socket_socket (print s w) = socket_socket w"
  by (simp add: print_def)

lemma socket_emit: "socket_socket (emit ev w) = socket_socket w"
  by (simp add: emit_def)

lemma defaultproxy_print: "defaultproxy (print s w) = defaultproxy w"
  by (simp add: print_def)

lemma defaultproxy_emit: "defaultproxy (emit ev w) = defaultproxy w"
  by (simp add: emit_def)

lemma send_socket:
  "socket_socket (snd (send srv r s b tr w)) =
     (case srv_proxy_info srv of None \<Rightarrow> socket_socket w | Some pi \<Rightarrow> SocksSocket)"
  by (simp add: send_def Let_def set_proxy_def socket_print socket_emit split: option.splits)

lemma send_defaultproxy:
  "defaultproxy (snd (send srv r s b tr w)) =
     (case srv_proxy_info srv of
        None \<Rightarrow> defaultproxy w
      | Some pi \<Rightarrow> Some (proxy_kind_of pi, proxy_host pi, proxy_port pi))"
  by (simp add: send_def Let_def set_proxy_def proxy_kind_of_def defaultproxy_print
      defaultproxy_emit split: option.splits)

lemma send_proxy_log:
  assumes "srv_proxy_info srv = Some pi"
  shows "\<exists>post. log (snd (send srv r s b tr w)) =
     log w @
       [SendCalled r s b,
        Printed (''[TERMINATION_MONITOR] Connecting to SMTP server '' @ srv_smtp_host srv
                   @ '':'' @ str_int (srv_smtp_port srv) @ ''...''),
        SetDefaultProxy (proxy_kind_of pi) (proxy_host pi) (proxy_port pi),
        SocketReplaced,
        SmtpSession (if srv_smtp_port srv = 465 then SMTP_SSL else SMTP_STARTTLS)
          (srv_smtp_host srv) (srv_smtp_port srv)] @ post"
  using assms
  by (cases tr)
     (simp_all add: send_def Let_def set_proxy_def proxy_kind_of_def log_print log_emit)

lemma exit_socket:
  assumes "original_sigterm m = Some ht" and "original_sigint m = Some hi"
    and "mailer m = Some srv" and "srv_proxy_info srv = Some pi"
  shows "socket_socket (snd (monitor_exit h t tr m ex w)) = SocksSocket"
  by (simp add: exit_snd [OF assms(1,2)] trigger_alert_snd [OF assms(3)] send_socket assms(4))

lemma init_result:
  assumes "fst (monitor_init pf ra ha pa sa pwa w) = Inr m"
  shows "recipient_email m = py_or ra (environ pf ''TERMINATION_MONITOR_RECIPIENT_EMAIL'')"
    and "smtp_host m = resolve_host pf ha"
    and "resolve_port pf pa = Inr (smtp_port m)"
    and "sender_email m = py_or sa (environ pf ''TERMINATION_MONITOR_SENDER_EMAIL'')"
    and "sender_password m = py_or pwa (environ pf ''TERMINATION_MONITOR_SENDER_PASSWORD'')"
    and "http_proxy m = environ pf ''TERMINATION_MONITOR_HTTP_PROXY''"
    and "https_proxy m = environ pf ''TERMINATION_MONITOR_HTTPS_PROXY''"
    and "mailer m = None \<longleftrightarrow>
           \<not> (truthy (sender_email m) \<and> truthy (sender_password m) \<and> truthy (recipient_email m))"
  using assms
  by (auto simp add: monitor_init_def Let_def getenv_def split: sum.splits if_splits)

lemma init_log:
  assumes "fst (monitor_init pf ra ha pa sa pwa w) = Inr m"
  shows "log (snd (monitor_init pf ra ha pa sa pwa w)) =
           log w @ (if mailer m = None then [Printed config_warning] else [])"
  using assms
  by (auto simp add: monitor_init_def Let_def getenv_def log_print split: sum.splits if_splits)

section \<open>The claims\<close>








text \<open>
  C4. A SIGINT that arrives while the block runs is turned by \<^verbatim>\<open>_handle_signal\<close> into
  SystemExit, so \<^verbatim>\<open>__exit__\<close> does not see KeyboardInterrupt: the status it
  reports is "Crashed / Terminated" with the traceback as details, and the status
  "Interrupted by User (Ctrl+C)" is left to a KeyboardInterrupt that the block raises
  itself.
\<close>

theorem sigint_reported_as_crash:
  "exit_status (fst (run_block (Signalled SIGINT stack) w)) =
     (''Crashed / Terminated'', stack @ ''SystemExit: Process terminated by signal SIGINT'' @ NL)
   \<and> fst (exit_status (fst (run_block (Raises ctrl_c) w))) = ''Interrupted by User (Ctrl+C)''"
  by (simp add: handle_signal_def Let_def exit_status_def format_exception_def ctrl_c_def)

text \<open>
  C5, as amended. Once \<^verbatim>\<open>__enter__\<close> has returned and the monitor has a mailer, a
  SIGTERM arriving in the block makes \<^verbatim>\<open>__exit__\<close> call \<^verbatim>\<open>send\<close> exactly once;
  the subject is the fixed "Crashed / Terminated" one, the body contains the signal's
  name, and the with statement ends in an exception, never in a normal return.
\<close>

theorem termination_signal_reported_in_body:
  assumes "fst (monitor_enter (hostname sr) (start_time sr) (start_transport sr) m w) = Inr m1"
    and "mailer m = Some srv"
  shows "(\<exists>body.
            sends (log (snd (monitor_exit (hostname sr) (end_time sr) (end_transport sr) m1
                    (fst (run_block (Signalled SIGTERM stack) w1))
                    (snd (run_block (Signalled SIGTERM stack) w1))))) =
              sends (log w1) @
                [(recipient_email m, alert_subject ''Crashed / Terminated'', body)]
            \<and> contains body (Signals_name SIGTERM))
       \<and> fst (with_monitor sr m (Signalled SIGTERM stack) w) \<noteq> None"
proof -
  let ?e = "\<lparr>exc_type = SystemExit,
             exc_str = ''Process terminated by signal '' @ Signals_name SIGTERM,
             exc_trace = stack\<rparr>"
  let ?body = "alert_body (hostname sr) ''Crashed / Terminated'' (end_time sr)
                 (format_exception ?e)"
  have m1: "m1 = m\<lparr>original_sigterm := Some (handlers w SIGTERM),
                     original_sigint := Some (handlers w SIGINT)\<rparr>"
    using assms(1) by (rule enter_armed)
  have t: "original_sigterm m1 = Some (handlers w SIGTERM)"
    and i: "original_sigint m1 = Some (handlers w SIGINT)"
    and ml: "mailer m1 = Some srv" and rc: "recipient_email m1 = recipient_email m"
    by (simp_all add: m1 assms(2))
  have ex: "fst (run_block (Signalled SIGTERM stack) w1) = Some ?e"
    by (simp add: handle_signal_def Let_def)
  have lg: "sends (log (snd (run_block (Signalled SIGTERM stack) w1))) = sends (log w1)"
    by (simp add: handle_signal_def Let_def log_print sends_append)
  have st: "exit_status (Some ?e) = (''Crashed / Terminated'', format_exception ?e)"
    by (simp add: exit_status_def)
  have "sends (log (snd (monitor_exit (hostname sr) (end_time sr) (end_transport sr) m1
                    (fst (run_block (Signalled SIGTERM stack) w1))
                    (snd (run_block (Signalled SIGTERM stack) w1))))) =
          sends (log w1) @ [(recipient_email m, alert_subject ''Crashed / Terminated'', ?body)]"
    by (simp only: exit_sends [OF t i] ex st lg ml rc fst_conv snd_conv option.case)
  moreover have "contains ?body (Signals_name SIGTERM)"
  proof (rule alert_body_contains_details)
    have "format_exception ?e =
        (stack @ ''SystemExit: Process terminated by signal '') @ Signals_name SIGTERM @ NL"
      by (simp add: format_exception_def)
    then show "contains (format_exception ?e) (Signals_name SIGTERM)"
      by (simp only: contains_def sublist_appendI)
  qed
  moreover have "fst (with_monitor sr m (Signalled SIGTERM stack) w) \<noteq> None"
    using enter_caught [OF assms]
    by (auto simp add: with_monitor_outcome assms(2) handle_signal_def Let_def
        split: sum.splits)
  ultimately show ?thesis by blast
qed

theorem termination_signal_reported_in_body_witness:
  "fst (monitor_enter (hostname (demo_surroundings None)) (start_time (demo_surroundings None))
          (start_transport (demo_surroundings None)) demo_monitor demo_process) =
     Inr (demo_armed demo_monitor)
   \<and> mailer demo_monitor = Some demo_server
   \<and> fst (with_monitor (demo_surroundings None) demo_monitor (Signalled SIGTERM [])
            demo_process) \<noteq> None"
proof -
  have h: "fst (monitor_enter (hostname (demo_surroundings None))
          (start_time (demo_surroundings None))
          (start_transport (demo_surroundings None)) demo_monitor demo_process) =
     Inr (demo_armed demo_monitor)"
    by (simp add: enter_fst demo_monitor_def demo_process_def demo_armed_def
        demo_surroundings_def)
  have g: "mailer demo_monitor = Some demo_server"
    by (simp add: demo_monitor_def)
  from h g termination_signal_reported_in_body [OF h g] show ?thesis by blast
qed

text \<open>
  C5 as stated fails: for SIGTERM the subject of the one e-mail that \<^verbatim>\<open>__exit__\<close>
  sends is "[ALERT] Your Program is Terminated: Crashed / Terminated", which does not
  contain "SIGTERM".
\<close>

theorem sigterm_subject_lacks_signal_name_counterexample:
  "map (\<lambda>(r, s, b). s)
     (sends (log (snd (monitor_exit ''box'' ''t1'' None (demo_armed demo_monitor)
        (fst (run_block (Signalled SIGTERM []) demo_process))
        (snd (run_block (Signalled SIGTERM []) demo_process)))))) =
     [''[ALERT] Your Program is Terminated: Crashed / Terminated'']
   \<and> \<not> contains ''[ALERT] Your Program is Terminated: Crashed / Terminated''
         (Signals_name SIGTERM)"
proof -
  have t: "original_sigterm (demo_armed demo_monitor) = Some SIG_DFL"
    and i: "original_sigint (demo_armed demo_monitor) = Some default_int_handler"
    by (simp_all add: demo_armed_def)
  have "map (\<lambda>(r, s, b). s)
     (sends (log (snd (monitor_exit ''box'' ''t1'' None (demo_armed demo_monitor)
        (fst (run_block (Signalled SIGTERM []) demo_process))
        (snd (run_block (Signalled SIGTERM []) demo_process)))))) =
     [''[ALERT] Your Program is Terminated: Crashed / Terminated'']"
    by (simp only: exit_sends [OF t i])
       (simp add: handle_signal_def Let_def log_print demo_process_def
          demo_armed_def demo_monitor_def exit_status_def alert_subject_def)
  moreover have "\<not> contains ''[ALERT] Your Program is Terminated: Crashed / Terminated''
         (Signals_name SIGTERM)"
    by (simp add: contains_def sublist_Cons_right)
  ultimately show ?thesis by blast
qed







text \<open>
  C9. When the server has a proxy, every call of \<^verbatim>\<open>send\<close>, whatever the SMTP session
  then does, sets the PySocks default proxy and replaces \<^verbatim>\<open>socket.socket\<close> by
  \<^verbatim>\<open>socks.socksocket\<close> just before the SMTP session is opened, and returns with the
  replacement still in place; the release step that made the call ends with it in
  place as well.
\<close>

theorem proxy_replaces_socket_factory_for_good:
  assumes "srv_proxy_info srv = Some pi"
  shows "socket_socket (snd (send srv r s b tr w)) = SocksSocket
       \<and> defaultproxy (snd (send srv r s b tr w)) =
           Some (proxy_kind_of pi, proxy_host pi, proxy_port pi)
       \<and> (\<exists>pre post. log (snd (send srv r s b tr w)) =
             pre @ [SetDefaultProxy (proxy_kind_of pi) (proxy_host pi) (proxy_port pi),
                    SocketReplaced,
                    SmtpSession (if srv_smtp_port srv = 465 then SMTP_SSL else SMTP_STARTTLS)
                      (srv_smtp_host srv) (srv_smtp_port srv)] @ post)
       \<and> (original_sigterm m = Some ht \<and> original_sigint m = Some hi \<and> mailer m = Some srv
            \<longrightarrow> socket_socket (snd (monitor_exit h t tr m ex w)) = SocksSocket)"
proof -
  obtain post where
    "log (snd (send srv r s b tr w)) =
     log w @
       [SendCalled r s b,
        Printed (''[TERMINATION_MONITOR] Connecting to SMTP server '' @ srv_smtp_host srv
                   @ '':'' @ str_int (srv_smtp_port srv) @ ''...''),
        SetDefaultProxy (proxy_kind_of pi) (proxy_host pi) (proxy_port pi),
        SocketReplaced,
        SmtpSession (if srv_smtp_port srv = 465 then SMTP_SSL else SMTP_STARTTLS)
          (srv_smtp_host srv) (srv_smtp_port srv)] @ post"
    using send_proxy_log [OF assms] by blast
  then have "log (snd (send srv r s b tr w)) =
     (log w @ [SendCalled r s b,
        Printed (''[TERMINATION_MONITOR] Connecting to SMTP server '' @ srv_smtp_host srv
                   @ '':'' @ str_int (srv_smtp_port srv) @ ''...'')]) @
       [SetDefaultProxy (proxy_kind_of pi) (proxy_host pi) (proxy_port pi),
        SocketReplaced,
        SmtpSession (if srv_smtp_port srv = 465 then SMTP_SSL else SMTP_STARTTLS)
          (srv_smtp_host srv) (srv_smtp_port srv)] @ post"
    by simp
  then have "\<exists>pre post. log (snd (send srv r s b tr w)) =
             pre @ [SetDefaultProxy (proxy_kind_of pi) (proxy_host pi) (proxy_port pi),
                    SocketReplaced,
                    SmtpSession (if srv_smtp_port srv = 465 then SMTP_SSL else SMTP_STARTTLS)
                      (srv_smtp_host srv) (srv_smtp_port srv)] @ post"
    by blast
  moreover have "socket_socket (snd (send srv r s b tr w)) = SocksSocket"
    by (simp add: send_socket assms)
  moreover have "defaultproxy (snd (send srv r s b tr w)) =
           Some (proxy_kind_of pi, proxy_host pi, proxy_port pi)"
    by (simp add: send_defaultproxy assms)
  moreover have "original_sigterm m = Some ht \<and> original_sigint m = Some hi
       \<and> mailer m = Some srv
            \<longrightarrow> socket_socket (snd (monitor_exit h t tr m ex w)) = SocksSocket"
    using exit_socket assms by blast
  ultimately show ?thesis by blast
qed

theorem proxy_replaces_socket_factory_for_good_witness:
  "srv_proxy_info demo_proxy_server =
     Some \<lparr>proxy_kind = ''http'', proxy_host = Some ''relay.example.org'', proxy_port = 3128\<rparr>
   \<and> socket_socket demo_process = StdSocket
   \<and> socket_socket (snd (send demo_proxy_server (Some ''ops@example.org'') ''subject'' ''body''
        None demo_process)) = SocksSocket"
proof -
  have h: "srv_proxy_info demo_proxy_server =
     Some \<lparr>proxy_kind = ''http'', proxy_host = Some ''relay.example.org'', proxy_port = 3128\<rparr>"
    by (simp add: demo_proxy_server_def)
  have g: "socket_socket demo_process = StdSocket"
    by (simp add: demo_process_def)
  from h g proxy_replaces_socket_factory_for_good [OF h] show ?thesis by blast
qed

text \<open>
  C8, as amended. In a monitor that \<^verbatim>\<open>__init__\<close> has constructed, the recipient, the
  SMTP host and port, the sender and the password are the explicit argument when that
  argument is truthy (a non-empty string, a non-zero port), and otherwise the
  environment variable (for host and port with the defaults \<^verbatim>\<open>smtp.gmail.com\<close> and
  587 when the variable is unset); the two proxy URLs are the environment variables,
  whatever the arguments are.
\<close>

theorem configuration_precedence:
  assumes "fst (monitor_init pf recipient_arg smtp_host_arg smtp_port_arg sender_arg
                  password_arg w) = Inr m"
  shows "recipient_email m =
           (if truthy recipient_arg then recipient_arg
            else environ pf ''TERMINATION_MONITOR_RECIPIENT_EMAIL'')
       \<and> (truthy smtp_host_arg \<longrightarrow> Some (smtp_host m) = smtp_host_arg)
       \<and> (\<not> truthy smtp_host_arg \<longrightarrow>
            smtp_host m =
              (case environ pf ''TERMINATION_MONITOR_SMTP_HOST'' of
                 None \<Rightarrow> ''smtp.gmail.com'' | Some v \<Rightarrow> v))
       \<and> (truthy_int smtp_port_arg \<longrightarrow> Some (smtp_port m) = smtp_port_arg)
       \<and> (\<not> truthy_int smtp_port_arg \<longrightarrow>
            (case environ pf ''TERMINATION_MONITOR_SMTP_PORT'' of
               None \<Rightarrow> smtp_port m = 587
             | Some s \<Rightarrow> int_of_str pf s = Inr (smtp_port m)))
       \<and> sender_email m =
           (if truthy sender_arg then sender_arg
            else environ pf ''TERMINATION_MONITOR_SENDER_EMAIL'')
       \<and> sender_password m =
           (if truthy password_arg then password_arg
            else environ pf ''TERMINATION_MONITOR_SENDER_PASSWORD'')
       \<and> http_proxy m = environ pf ''TERMINATION_MONITOR_HTTP_PROXY''
       \<and> https_proxy m = environ pf ''TERMINATION_MONITOR_HTTPS_PROXY''"
proof -
  note r = init_result [OF assms]
  have host1: "truthy smtp_host_arg \<longrightarrow> Some (smtp_host m) = smtp_host_arg"
    by (cases smtp_host_arg) (simp_all add: r(2) resolve_host_def)
  have host2: "\<not> truthy smtp_host_arg \<longrightarrow>
            smtp_host m =
              (case environ pf ''TERMINATION_MONITOR_SMTP_HOST'' of
                 None \<Rightarrow> ''smtp.gmail.com'' | Some v \<Rightarrow> v)"
    by (cases smtp_host_arg) (simp_all add: r(2) resolve_host_def getenv_default_def)
  have port1: "truthy_int smtp_port_arg \<longrightarrow> Some (smtp_port m) = smtp_port_arg"
    using r(3) by (cases smtp_port_arg) (auto simp add: resolve_port_def)
  have port2: "\<not> truthy_int smtp_port_arg \<longrightarrow>
            (case environ pf ''TERMINATION_MONITOR_SMTP_PORT'' of
               None \<Rightarrow> smtp_port m = 587
             | Some s \<Rightarrow> int_of_str pf s = Inr (smtp_port m))"
    using r(3) by (auto simp add: resolve_port_def split: option.splits)
  show ?thesis
    using host1 host2 port1 port2
    by (simp add: r(1,4,5,6,7) py_or_def)
qed

theorem configuration_precedence_witness:
  "fst (monitor_init port_env_platform (Some ''ops@example.org'') (Some ''smtp.example.org'')
          (Some 465) (Some ''bot@example.org'') (Some ''secret'') demo_process) =
     Inr (demo_monitor\<lparr>smtp_host := ''smtp.example.org'', smtp_port := 465,
            mailer := Some (demo_server\<lparr>srv_smtp_host := ''smtp.example.org'',
                                        srv_smtp_port := 465\<rparr>)\<rparr>)
   \<and> smtp_port (demo_monitor\<lparr>smtp_host := ''smtp.example.org'', smtp_port := 465,
            mailer := Some (demo_server\<lparr>srv_smtp_host := ''smtp.example.org'',
                                        srv_smtp_port := 465\<rparr>)\<rparr>) = 465"
proof -
  have h: "fst (monitor_init port_env_platform (Some ''ops@example.org'')
          (Some ''smtp.example.org'')
          (Some 465) (Some ''bot@example.org'') (Some ''secret'') demo_process) =
     Inr (demo_monitor\<lparr>smtp_host := ''smtp.example.org'', smtp_port := 465,
            mailer := Some (demo_server\<lparr>srv_smtp_host := ''smtp.example.org'',
                                        srv_smtp_port := 465\<rparr>)\<rparr>)"
    by (simp add: monitor_init_def Let_def port_env_platform_def demo_platform_def
        resolve_host_def resolve_port_def py_or_def getenv_def server_init_def
        demo_monitor_def demo_server_def)
  from h configuration_precedence [OF h] show ?thesis by simp
qed

text \<open>
  C8 as stated fails: with all five constructor arguments given and an empty
  environment the monitor has no proxy, since \<^verbatim>\<open>__init__\<close> has no proxy parameter;
  and an explicit port 0 loses against the environment variable.
\<close>

theorem proxy_and_zero_port_ignore_arguments_counterexample:
  "\<not> isl (fst (monitor_init demo_platform (Some ''ops@example.org'')
              (Some ''smtp.example.org'') (Some 465) (Some ''bot@example.org'')
              (Some ''secret'') demo_process))
   \<and> http_proxy (projr (fst (monitor_init demo_platform (Some ''ops@example.org'')
              (Some ''smtp.example.org'') (Some 465) (Some ''bot@example.org'')
              (Some ''secret'') demo_process))) = None
   \<and> https_proxy (projr (fst (monitor_init demo_platform (Some ''ops@example.org'')
              (Some ''smtp.example.org'') (Some 465) (Some ''bot@example.org'')
              (Some ''secret'') demo_process))) = None
   \<and> smtp_port (projr (fst (monitor_init port_env_platform (Some ''ops@example.org'')
              (Some ''smtp.example.org'') (Some 0) (Some ''bot@example.org'')
              (Some ''secret'') demo_process))) = 2525"
  by (simp add: monitor_init_def Let_def port_env_platform_def demo_platform_def
      resolve_host_def resolve_port_def py_or_def getenv_def server_init_def)

text \<open>
  C10. In a monitor that \<^verbatim>\<open>__init__\<close> has constructed, \<^verbatim>\<open>mailer\<close> is None exactly
  when the resolved sender, password or recipient is absent, that is None or the
  empty string; a host and a port given neither as argument nor in the environment
  become \<^verbatim>\<open>smtp.gmail.com\<close> and 587; and construction prints the warning once when
  \<^verbatim>\<open>mailer\<close> is None and prints nothing otherwise.
\<close>

theorem degraded_iff_credentials_absent:
  assumes "fst (monitor_init pf recipient_arg smtp_host_arg smtp_port_arg sender_arg
                  password_arg w) = Inr m"
  shows "(mailer m = None \<longleftrightarrow>
            \<not> truthy (sender_email m) \<or> \<not> truthy (sender_password m)
              \<or> \<not> truthy (recipient_email m))
       \<and> (\<not> truthy smtp_host_arg \<and> environ pf ''TERMINATION_MONITOR_SMTP_HOST'' = None
            \<longrightarrow> smtp_host m = ''smtp.gmail.com'')
       \<and> (\<not> truthy_int smtp_port_arg \<and> environ pf ''TERMINATION_MONITOR_SMTP_PORT'' = None
            \<longrightarrow> smtp_port m = 587)
       \<and> log (snd (monitor_init pf recipient_arg smtp_host_arg smtp_port_arg sender_arg
                      password_arg w)) =
           log w @ (if mailer m = None then [Printed config_warning] else [])"
proof -
  note r = init_result [OF assms]
  have host: "\<not> truthy smtp_host_arg \<and> environ pf ''TERMINATION_MONITOR_SMTP_HOST'' = None
            \<longrightarrow> smtp_host m = ''smtp.gmail.com''"
    by (cases smtp_host_arg) (simp_all add: r(2) resolve_host_def getenv_default_def)
  have port: "\<not> truthy_int smtp_port_arg \<and> environ pf ''TERMINATION_MONITOR_SMTP_PORT'' = None
            \<longrightarrow> smtp_port m = 587"
    using r(3) by (auto simp add: resolve_port_def)
  show ?thesis
    using host port r(8) init_log [OF assms] by blast
qed

theorem degraded_iff_credentials_absent_witness:
  "fst (monitor_init demo_platform (Some ''ops@example.org'') None None
          (Some ''bot@example.org'') (Some ''secret'') demo_process) = Inr demo_monitor
   \<and> mailer demo_monitor \<noteq> None
   \<and> smtp_host demo_monitor = ''smtp.gmail.com'' \<and> smtp_port demo_monitor = 587
   \<and> fst (monitor_init demo_platform None None None
          (Some ''bot@example.org'') (Some ''secret'') demo_process) = Inr degraded_monitor
   \<and> mailer degraded_monitor = None
   \<and> log (snd (monitor_init demo_platform None None None
          (Some ''bot@example.org'') (Some ''secret'') demo_process)) =
       [Printed config_warning]"
proof -
  have h: "fst (monitor_init demo_platform (Some ''ops@example.org'') None None
          (Some ''bot@example.org'') (Some ''secret'') demo_process) = Inr demo_monitor"
    by (simp add: monitor_init_def Let_def demo_platform_def
        resolve_host_def resolve_port_def py_or_def getenv_def getenv_default_def
        server_init_def demo_monitor_def demo_server_def)
  have g: "fst (monitor_init demo_platform None None None
          (Some ''bot@example.org'') (Some ''secret'') demo_process) = Inr degraded_monitor"
    by (simp add: monitor_init_def Let_def demo_platform_def
        resolve_host_def resolve_port_def py_or_def getenv_def getenv_default_def
        server_init_def demo_monitor_def degraded_monitor_def)
  have e: "log demo_process = []" by (simp add: demo_process_def)
  from h g e degraded_iff_credentials_absent [OF h] degraded_iff_credentials_absent [OF g]
  show ?thesis
    by (simp add: demo_monitor_def degraded_monitor_def)
qed

end
